theory Spec2Isabelle
  imports Complex_Main
begin

section \<open>Fitness tracker: workouts, their formulas and the factory\<close>

text \<open>
  The module \<^verbatim>\<open>main.py\<close> computes, for one workout read from a sensor package, its
  distance, mean speed and spent calories, and packs them into an information message.

  Numbers. Python mixes \<^verbatim>\<open>int\<close> and \<^verbatim>\<open>float\<close> freely here and every division is the
  true division \<^verbatim>\<open>/\<close>, so both are embedded into \<^typ>\<open>real\<close>: the model computes each
  expression of the source exactly, in the source's order of operations, and leaves the
  rounding of IEEE doubles out. The one arithmetic failure the source can raise on
  numbers, a division by zero, is a branch of the model.
\<close>

subsection \<open>Errors\<close>

datatype error = ValueError | TypeError | ZeroDivisionError

text \<open>Python's \<^verbatim>\<open>a / b\<close>: raises \<^verbatim>\<open>ZeroDivisionError\<close> when the divisor is zero.\<close>

definition truediv :: "real \<Rightarrow> real \<Rightarrow> error + real" where
  "truediv a b = (if b = 0 then Inl ZeroDivisionError else Inr (a / b))"

subsection \<open>The information message\<close>

record InfoMessage =
  training_type :: string
  duration :: real
  distance :: real
  speed :: real
  calories :: real

subsection \<open>The class hierarchy\<close>

text \<open>
  \<^verbatim>\<open>Training\<close> is abstract; its three subclasses are the constructors. The attributes
  keep the names \<^verbatim>\<open>__init__\<close> gives them: \<^verbatim>\<open>SportsWalking\<close> calls its extra attribute
  \<^verbatim>\<open>height_cm\<close> although it stores the height divided by \<^verbatim>\<open>L\<close>.
\<close>

datatype Training =
    Running (action_times: real) (duration_hour: real) (weight_kg: real)
  | SportsWalking (action_times: real) (duration_hour: real) (weight_kg: real)
      (height_cm: real)
  | Swimming (action_times: real) (duration_hour: real) (weight_kg: real)
      (length_pool_meters: real) (count_pool_times: real)

text \<open>\<^verbatim>\<open>self.__class__.__name__\<close>\<close>

fun class_name :: "Training \<Rightarrow> string" where
  "class_name (Running _ _ _) = ''Running''"
| "class_name (SportsWalking _ _ _ _) = ''SportsWalking''"
| "class_name (Swimming _ _ _ _ _) = ''Swimming''"

subsection \<open>Class constants\<close>

text \<open>
  \<^verbatim>\<open>self.LEN_STEP\<close> is looked up on the class of the object: \<^verbatim>\<open>Swimming\<close> redefines
  it, the other two inherit the value of \<^verbatim>\<open>Training\<close>.
\<close>

fun LEN_STEP :: "Training \<Rightarrow> real" where
  "LEN_STEP (Swimming _ _ _ _ _) = 1.38"
| "LEN_STEP _ = 0.65"

definition M_IN_KM :: real where "M_IN_KM = 1000"
definition MINUTES_IN_HOUR :: real where "MINUTES_IN_HOUR = 60"

definition CALORIES_MEAN_SPEED_MULTIPLIER :: real where
  "CALORIES_MEAN_SPEED_MULTIPLIER = 18"
definition CALORIES_MEAN_SPEED_SHIFT :: real where
  "CALORIES_MEAN_SPEED_SHIFT = 1.79"

definition coe_ff1 :: real where "coe_ff1 = 0.029"
definition coe_ff2 :: real where "coe_ff2 = 0.035"
definition K :: nat where "K = 2"
definition G :: real where "G = 0.278"
definition L :: real where "L = 100"

definition COEFF_CALOR1 :: real where "COEFF_CALOR1 = 1.1"
definition COEFF_CALOR2 :: real where "COEFF_CALOR2 = 2"

subsection \<open>Constructors\<close>

text \<open>
  A constructor is called as \<^verbatim>\<open>cls(*data)\<close>: the list is spread over the positional
  parameters, and a list of any other length than the parameter count raises
  \<^verbatim>\<open>TypeError\<close>. \<^verbatim>\<open>Running\<close> inherits \<^verbatim>\<open>Training.__init__\<close>. The parameter
  \<^verbatim>\<open>duration\<close> is written \<open>dur\<close>, the name being taken by the message's field.
\<close>

fun Running_init :: "real list \<Rightarrow> error + Training" where
  "Running_init [action, dur, weight] = Inr (Running action dur weight)"
| "Running_init _ = Inl TypeError"

fun SportsWalking_init :: "real list \<Rightarrow> error + Training" where
  "SportsWalking_init [action, dur, weight, height] =
     Inr (SportsWalking action dur weight (height / L))"
| "SportsWalking_init _ = Inl TypeError"

fun Swimming_init :: "real list \<Rightarrow> error + Training" where
  "Swimming_init [action, dur, weight, length_pool, count_pool] =
     Inr (Swimming action dur weight length_pool count_pool)"
| "Swimming_init _ = Inl TypeError"

subsection \<open>Methods\<close>

text \<open>\<^verbatim>\<open>Training.get_distance\<close>, which no subclass overrides.\<close>

definition get_distance :: "Training \<Rightarrow> real" where
  "get_distance self = action_times self * LEN_STEP self / M_IN_KM"

text \<open>\<^verbatim>\<open>Training.get_mean_speed\<close>, the inherited default.\<close>

definition Training_get_mean_speed :: "Training \<Rightarrow> error + real" where
  "Training_get_mean_speed self = truediv (get_distance self) (duration_hour self)"

text \<open>\<^verbatim>\<open>Swimming.get_mean_speed\<close>, the override.\<close>

definition Swimming_get_mean_speed :: "Training \<Rightarrow> error + real" where
  "Swimming_get_mean_speed self =
     truediv (length_pool_meters self * count_pool_times self / M_IN_KM)
       (duration_hour self)"

text \<open>\<^verbatim>\<open>self.get_mean_speed()\<close>: dynamic dispatch on the class of the object.\<close>

fun get_mean_speed :: "Training \<Rightarrow> error + real" where
  "get_mean_speed (Swimming a d w l c) = Swimming_get_mean_speed (Swimming a d w l c)"
| "get_mean_speed self = Training_get_mean_speed self"

text \<open>\<^verbatim>\<open>get_spent_calories\<close> of each subclass.\<close>

definition Running_get_spent_calories :: "Training \<Rightarrow> error + real" where
  "Running_get_spent_calories self =
     (case get_mean_speed self of
        Inl e \<Rightarrow> Inl e
      | Inr v \<Rightarrow>
          Inr ((CALORIES_MEAN_SPEED_MULTIPLIER * v + CALORIES_MEAN_SPEED_SHIFT)
               * weight_kg self / M_IN_KM
               * (duration_hour self * MINUTES_IN_HOUR)))"

definition SportsWalking_get_spent_calories :: "Training \<Rightarrow> error + real" where
  "SportsWalking_get_spent_calories self =
     (case get_mean_speed self of
        Inl e \<Rightarrow> Inl e
      | Inr v \<Rightarrow>
          (let SPEED_M = G * v in
           case truediv (SPEED_M ^ K) (height_cm self) of
             Inl e \<Rightarrow> Inl e
           | Inr q \<Rightarrow>
               Inr ((coe_ff2 * weight_kg self + q * coe_ff1 * weight_kg self)
                    * (duration_hour self * MINUTES_IN_HOUR))))"

definition Swimming_get_spent_calories :: "Training \<Rightarrow> error + real" where
  "Swimming_get_spent_calories self =
     (case get_mean_speed self of
        Inl e \<Rightarrow> Inl e
      | Inr v \<Rightarrow>
          Inr ((v + COEFF_CALOR1) * COEFF_CALOR2 * weight_kg self * duration_hour self))"

fun get_spent_calories :: "Training \<Rightarrow> error + real" where
  "get_spent_calories (Running a d w) = Running_get_spent_calories (Running a d w)"
| "get_spent_calories (SportsWalking a d w h) =
     SportsWalking_get_spent_calories (SportsWalking a d w h)"
| "get_spent_calories (Swimming a d w l c) =
     Swimming_get_spent_calories (Swimming a d w l c)"

text \<open>
  \<^verbatim>\<open>Training.show_training_info\<close>: the arguments of \<^verbatim>\<open>InfoMessage\<close> are evaluated left
  to right, so a failing mean speed is raised before the calories are computed.
\<close>

definition show_training_info :: "Training \<Rightarrow> error + InfoMessage" where
  "show_training_info self =
     (let d = get_distance self in
      case get_mean_speed self of
        Inl e \<Rightarrow> Inl e
      | Inr v \<Rightarrow>
          (case get_spent_calories self of
             Inl e \<Rightarrow> Inl e
           | Inr c \<Rightarrow>
               Inr \<lparr>training_type = class_name self, duration = duration_hour self,
                    distance = d, speed = v, calories = c\<rparr>))"

subsection \<open>The factory\<close>

definition training_data :: "string \<rightharpoonup> (real list \<Rightarrow> error + Training)" where
  "training_data =
     [''SWM'' \<mapsto> Swimming_init, ''RUN'' \<mapsto> Running_init, ''WLK'' \<mapsto> SportsWalking_init]"

definition read_package :: "string \<Rightarrow> real list \<Rightarrow> error + Training" where
  "read_package workout_type data =
     (case training_data workout_type of
        None \<Rightarrow> Inl ValueError
      | Some cls \<Rightarrow> cls data)"

subsection \<open>The methods as transformers of the object\<close>

text \<open>
  To speak of mutation the object must be a state. Here every method takes the object
  and returns its result together with the object as the method leaves it; a method
  that calls another one goes on with the object the callee returned. The bodies are the
  source's: they read attributes and call methods, and no body assigns to an attribute.
  A raised exception leaves the object as it is at that point.
\<close>

definition get_distance_st :: "Training \<Rightarrow> real \<times> Training" where
  "get_distance_st self = (action_times self * LEN_STEP self / M_IN_KM, self)"

definition Training_get_mean_speed_st :: "Training \<Rightarrow> (error + real) \<times> Training" where
  "Training_get_mean_speed_st self =
     (case get_distance_st self of
        (d, self1) \<Rightarrow> (truediv d (duration_hour self1), self1))"

definition Swimming_get_mean_speed_st :: "Training \<Rightarrow> (error + real) \<times> Training" where
  "Swimming_get_mean_speed_st self =
     (truediv (length_pool_meters self * count_pool_times self / M_IN_KM)
        (duration_hour self), self)"

fun get_mean_speed_st :: "Training \<Rightarrow> (error + real) \<times> Training" where
  "get_mean_speed_st (Swimming a d w l c) = Swimming_get_mean_speed_st (Swimming a d w l c)"
| "get_mean_speed_st self = Training_get_mean_speed_st self"

definition Running_get_spent_calories_st :: "Training \<Rightarrow> (error + real) \<times> Training" where
  "Running_get_spent_calories_st self =
     (case get_mean_speed_st self of
        (Inl e, self1) \<Rightarrow> (Inl e, self1)
      | (Inr v, self1) \<Rightarrow>
          (Inr ((CALORIES_MEAN_SPEED_MULTIPLIER * v + CALORIES_MEAN_SPEED_SHIFT)
                * weight_kg self1 / M_IN_KM
                * (duration_hour self1 * MINUTES_IN_HOUR)), self1))"

definition SportsWalking_get_spent_calories_st ::
  "Training \<Rightarrow> (error + real) \<times> Training" where
  "SportsWalking_get_spent_calories_st self =
     (case get_mean_speed_st self of
        (Inl e, self1) \<Rightarrow> (Inl e, self1)
      | (Inr v, self1) \<Rightarrow>
          (let SPEED_M = G * v in
           case truediv (SPEED_M ^ K) (height_cm self1) of
             Inl e \<Rightarrow> (Inl e, self1)
           | Inr q \<Rightarrow>
               (Inr ((coe_ff2 * weight_kg self1 + q * coe_ff1 * weight_kg self1)
                     * (duration_hour self1 * MINUTES_IN_HOUR)), self1)))"

definition Swimming_get_spent_calories_st :: "Training \<Rightarrow> (error + real) \<times> Training" where
  "Swimming_get_spent_calories_st self =
     (case get_mean_speed_st self of
        (Inl e, self1) \<Rightarrow> (Inl e, self1)
      | (Inr v, self1) \<Rightarrow>
          (Inr ((v + COEFF_CALOR1) * COEFF_CALOR2 * weight_kg self1 * duration_hour self1),
           self1))"

fun get_spent_calories_st :: "Training \<Rightarrow> (error + real) \<times> Training" where
  "get_spent_calories_st (Running a d w) = Running_get_spent_calories_st (Running a d w)"
| "get_spent_calories_st (SportsWalking a d w h) =
     SportsWalking_get_spent_calories_st (SportsWalking a d w h)"
| "get_spent_calories_st (Swimming a d w l c) =
     Swimming_get_spent_calories_st (Swimming a d w l c)"

definition show_training_info_st :: "Training \<Rightarrow> (error + InfoMessage) \<times> Training" where
  "show_training_info_st self =
     (let n = class_name self; t = duration_hour self in
      case get_distance_st self of
        (d, self1) \<Rightarrow>
          (case get_mean_speed_st self1 of
             (Inl e, self2) \<Rightarrow> (Inl e, self2)
           | (Inr v, self2) \<Rightarrow>
               (case get_spent_calories_st self2 of
                  (Inl e, self3) \<Rightarrow> (Inl e, self3)
                | (Inr c, self3) \<Rightarrow>
                    (Inr \<lparr>training_type = n, duration = t, distance = d, speed = v,
                          calories = c\<rparr>, self3))))"

section \<open>Properties\<close>

lemmas consts_defs =
  M_IN_KM_def MINUTES_IN_HOUR_def CALORIES_MEAN_SPEED_MULTIPLIER_def
  CALORIES_MEAN_SPEED_SHIFT_def coe_ff1_def coe_ff2_def K_def G_def L_def
  COEFF_CALOR1_def COEFF_CALOR2_def

text \<open>
  C1. For a swimming workout the distance is the inherited formula with the swimming
  step length, \<open>action_times * 1.38 / 1000\<close>, whatever the pool is; the mean speed is
  the overriding formula \<open>length_pool * count_pool / 1000 / duration\<close>, whatever the
  stroke count is. The mean speed is a value for every duration other than zero (the
  workouts of the data model have a positive duration).
\<close>

theorem Swimming_distance_and_mean_speed:
  "get_distance (Swimming a d w l c) = a * 1.38 / 1000 \<and>
   (d \<noteq> 0 \<longrightarrow> get_mean_speed (Swimming a d w l c) = Inr (l * c / 1000 / d))"
  by (simp add: get_distance_def Swimming_get_mean_speed_def truediv_def M_IN_KM_def)

theorem Swimming_distance_and_mean_speed_witness:
  "get_distance (Swimming 720 1 80 25 40) = 720 * 1.38 / 1000 \<and>
   (1::real) \<noteq> 0 \<and> get_mean_speed (Swimming 720 1 80 25 40) = Inr (25 * 40 / 1000 / 1)"
  using Swimming_distance_and_mean_speed [of 720 1 80 25 40] by simp

text \<open>
  C6. For every running workout the distance is \<open>action_times * 0.65 / 1000\<close>. It
  holds for all field values, so in particular for a positive duration, a positive
  weight and a non-negative step count.
\<close>

theorem Running_get_distance:
  "get_distance (Running a d w) = a * 0.65 / 1000"
  by (simp add: get_distance_def M_IN_KM_def)

text \<open>
  C10. Two swimming workouts that differ only in the stroke count have the same mean
  speed and the same spent calories (the same value, or the same error).
\<close>

theorem Swimming_speed_calories_independent_of_action:
  "get_mean_speed (Swimming a d w l c) = get_mean_speed (Swimming a' d w l c) \<and>
   get_spent_calories (Swimming a d w l c) = get_spent_calories (Swimming a' d w l c)"
  by (simp add: Swimming_get_spent_calories_def Swimming_get_mean_speed_def
        split: sum.splits)

text \<open>
  C2, as the claim states it. The swimming sample \<open>(720, 1, 80, 25, 40)\<close> has the
  distance \<open>720 * 1.38 / 1000 = 0.9936\<close> km, which is further than \<open>0.5\<close> from the
  claimed \<open>0.468\<close> (the value the step length \<open>0.65\<close> would give).
\<close>

theorem Swimming_sample_distance_counterexample:
  "get_distance (Swimming 720 1 80 25 40) = 0.9936 \<and>
   \<not> \<bar>get_distance (Swimming 720 1 80 25 40) - 0.468\<bar> \<le> 0.5"
  by (simp add: get_distance_def M_IN_KM_def)

text \<open>
  C2, amended. For the swimming sample \<open>(720, 1, 80, 25, 40)\<close>, built by the factory
  from the tag \<open>SWM\<close>, the distance is \<open>0.9936\<close> km, the mean speed is \<open>1.0\<close> km/h
  and the spent calories are \<open>(1.0 + 1.1) * 2 * 80 * 1 = 336.0\<close>.
\<close>

theorem Swimming_sample:
  "read_package ''SWM'' [720, 1, 80, 25, 40] = Inr (Swimming 720 1 80 25 40) \<and>
   get_distance (Swimming 720 1 80 25 40) = 0.9936 \<and>
   get_mean_speed (Swimming 720 1 80 25 40) = Inr 1.0 \<and>
   get_spent_calories (Swimming 720 1 80 25 40) = Inr ((1.0 + 1.1) * 2 * 80 * 1) \<and>
   (1.0 + 1.1) * 2 * 80 * 1 = (336.0 :: real)"
  by (simp add: read_package_def training_data_def get_distance_def
        Swimming_get_spent_calories_def Swimming_get_mean_speed_def truediv_def
        consts_defs)

text \<open>
  C3, as the claim states it. The running sample \<open>(15000, 1, 75)\<close> spends
  \<open>(18 * 9.75 + 1.79) * 75 / 1000 * 60 = 797.805\<close> calories, which is further than
  \<open>0.5\<close> from the claimed \<open>797.006\<close>.
\<close>

theorem Running_sample_calories_counterexample:
  "get_spent_calories (Running 15000 1 75) = Inr 797.805 \<and>
   \<not> \<bar>projr (get_spent_calories (Running 15000 1 75)) - 797.006\<bar> \<le> 0.5"
  by (simp add: Running_get_spent_calories_def Training_get_mean_speed_def
        get_distance_def truediv_def consts_defs)

text \<open>
  C3, amended. For the running sample \<open>(15000, 1, 75)\<close>, built by the factory from the
  tag \<open>RUN\<close>, the distance is \<open>9.75\<close> km, the mean speed is \<open>9.75\<close> km/h and the
  spent calories are \<open>(18 * 9.75 + 1.79) * 75 / 1000 * 60\<close>, which is \<open>797.805\<close>.
\<close>

theorem Running_sample:
  "read_package ''RUN'' [15000, 1, 75] = Inr (Running 15000 1 75) \<and>
   get_distance (Running 15000 1 75) = 9.75 \<and>
   get_mean_speed (Running 15000 1 75) = Inr 9.75 \<and>
   get_spent_calories (Running 15000 1 75) = Inr ((18 * 9.75 + 1.79) * 75 / 1000 * 60) \<and>
   (18 * 9.75 + 1.79) * 75 / 1000 * 60 = (797.805 :: real)"
  by (simp add: read_package_def training_data_def get_distance_def
        Running_get_spent_calories_def Training_get_mean_speed_def truediv_def
        consts_defs)

text \<open>A constructor call fails only on the number of arguments.\<close>

lemma Running_init_not_ValueError: "Running_init data \<noteq> Inl ValueError"
  by (cases data rule: Running_init.cases) simp_all

lemma SportsWalking_init_not_ValueError: "SportsWalking_init data \<noteq> Inl ValueError"
  by (cases data rule: SportsWalking_init.cases) simp_all

lemma Swimming_init_not_ValueError: "Swimming_init data \<noteq> Inl ValueError"
  by (cases data rule: Swimming_init.cases) simp_all

text \<open>
  C4. The factory raises \<open>ValueError\<close> exactly for the tags outside
  \<open>{SWM, RUN, WLK}\<close>. For a tag inside the set it is the call of the matching class
  on the spread list: \<open>SWM\<close> gives \<open>Swimming\<close>, \<open>RUN\<close> gives \<open>Running\<close>, \<open>WLK\<close>
  gives \<open>SportsWalking\<close>, each with the measurements in the order of the list.
\<close>

theorem read_package_dispatch:
  "(read_package tag data = Inl ValueError \<longleftrightarrow> tag \<notin> {''SWM'', ''RUN'', ''WLK''}) \<and>
   read_package ''SWM'' data = Swimming_init data \<and>
   read_package ''RUN'' data = Running_init data \<and>
   read_package ''WLK'' data = SportsWalking_init data \<and>
   read_package ''SWM'' [a, d, w, l, c] = Inr (Swimming a d w l c) \<and>
   read_package ''RUN'' [a, d, w] = Inr (Running a d w) \<and>
   read_package ''WLK'' [a, d, w, h] = Inr (SportsWalking a d w (h / 100))"
  using Swimming_init_not_ValueError [of data] Running_init_not_ValueError [of data]
    SportsWalking_init_not_ValueError [of data]
  by (simp add: read_package_def training_data_def L_def)

theorem read_package_dispatch_witness:
  "read_package ''XXX'' [1, 2, 3] = Inl ValueError \<and>
   read_package ''swm'' [720, 1, 80, 25, 40] = Inl ValueError \<and>
   read_package ''WLK'' [9000, 1, 75, 180] = Inr (SportsWalking 9000 1 75 (180 / 100)) \<and>
   read_package ''RUN'' [9000, 1, 75, 180] \<noteq> Inl ValueError"
  using read_package_dispatch [of "''XXX''" "[1, 2, 3]"]
    read_package_dispatch [of "''swm''" "[720, 1, 80, 25, 40]"]
    read_package_dispatch [of "''RUN''" "[9000, 1, 75, 180]" 9000 1 75 _ _ 180]
  by simp

text \<open>
  C5. A walking workout built from the raw height \<open>h\<close> in centimetres stores
  \<open>h / 100\<close>. Its mean speed is the inherited one, \<open>a * 0.65 / 1000 / d\<close>, and its
  spent calories are
  \<open>(0.035 * w + ((0.278 * speed)\<^sup>2 / (h / 100)) * 0.029 * w) * (d * 60)\<close>, for every
  duration and height other than zero (both are positive in the data model).
\<close>

theorem SportsWalking_height_and_calories:
  "SportsWalking_init [a, d, w, h] = Inr (SportsWalking a d w (h / 100)) \<and>
   height_cm (SportsWalking a d w (h / 100)) = h / 100 \<and>
   (d \<noteq> 0 \<longrightarrow>
      get_mean_speed (SportsWalking a d w (h / 100)) = Inr (a * 0.65 / 1000 / d)) \<and>
   (d \<noteq> 0 \<and> h \<noteq> 0 \<longrightarrow>
      get_spent_calories (SportsWalking a d w (h / 100)) =
        Inr ((0.035 * w + ((0.278 * (a * 0.65 / 1000 / d))\<^sup>2 / (h / 100)) * 0.029 * w)
             * (d * 60)))"
  by (simp add: SportsWalking_get_spent_calories_def Training_get_mean_speed_def
        get_distance_def truediv_def consts_defs)

theorem SportsWalking_height_and_calories_witness:
  "SportsWalking_init [9000, 1, 75, 180] = Inr (SportsWalking 9000 1 75 (180 / 100)) \<and>
   (1::real) \<noteq> 0 \<and> (180::real) \<noteq> 0 \<and>
   get_mean_speed (SportsWalking 9000 1 75 (180 / 100)) = Inr (9000 * 0.65 / 1000 / 1) \<and>
   get_spent_calories (SportsWalking 9000 1 75 (180 / 100)) =
     Inr ((0.035 * 75 + ((0.278 * (9000 * 0.65 / 1000 / 1))\<^sup>2 / (180 / 100)) * 0.029 * 75)
          * (1 * 60))"
  using SportsWalking_height_and_calories [of 9000 1 75 180] by simp

text \<open>What a successful factory call tells about the package and the workout.\<close>

lemma read_package_Inr_cases:
  assumes "read_package tag data = Inr self"
  obtains (SWM) a d w l c where
      "tag = ''SWM''" "data = [a, d, w, l, c]" "self = Swimming a d w l c"
    | (RUN) a d w where
      "tag = ''RUN''" "data = [a, d, w]" "self = Running a d w"
    | (WLK) a d w h where
      "tag = ''WLK''" "data = [a, d, w, h]" "self = SportsWalking a d w (h / L)"
proof -
  consider "tag = ''SWM''" "Swimming_init data = Inr self"
    | "tag = ''RUN''" "Running_init data = Inr self"
    | "tag = ''WLK''" "SportsWalking_init data = Inr self"
    using assms
    by (auto simp add: read_package_def training_data_def split: if_splits)
  then show thesis
  proof cases
    case 1
    from 1(2) show thesis
      by (cases data rule: Swimming_init.cases) (use 1(1) in \<open>auto intro: SWM\<close>)
  next
    case 2
    from 2(2) show thesis
      by (cases data rule: Running_init.cases) (use 2(1) in \<open>auto intro: RUN\<close>)
  next
    case 3
    from 3(2) show thesis
      by (cases data rule: SportsWalking_init.cases) (use 3(1) in \<open>auto intro: WLK\<close>)
  qed
qed

text \<open>
  C7. Let the factory build a workout from a package. The workout keeps the second
  measurement, the duration, as it is, and every information message made from the
  workout has it in its duration field. A message is made whenever the duration is not
  zero and, for walking, the height is not zero.
\<close>

theorem report_duration_roundtrip:
  assumes "read_package tag data = Inr self"
  shows "duration_hour self = data ! 1 \<and>
         (\<forall>info. show_training_info self = Inr info \<longrightarrow> duration info = data ! 1) \<and>
         (data ! 1 \<noteq> 0 \<and> (tag = ''WLK'' \<longrightarrow> data ! 3 \<noteq> 0) \<longrightarrow>
            (\<exists>info. show_training_info self = Inr info))"
  using assms
proof (cases rule: read_package_Inr_cases)
  case (SWM a d w l c)
  then show ?thesis
    by (auto simp add: show_training_info_def Swimming_get_spent_calories_def
          Swimming_get_mean_speed_def truediv_def split: sum.splits)
next
  case (RUN a d w)
  then show ?thesis
    by (auto simp add: show_training_info_def Running_get_spent_calories_def
          Training_get_mean_speed_def truediv_def split: sum.splits)
next
  case (WLK a d w h)
  then show ?thesis
    by (auto simp add: show_training_info_def SportsWalking_get_spent_calories_def
          Training_get_mean_speed_def truediv_def L_def Let_def split: sum.splits)
qed

theorem report_duration_roundtrip_witness:
  "read_package ''WLK'' [9000, 1, 75, 180] = Inr (SportsWalking 9000 1 75 (180 / 100)) \<and>
   \<not> isl (show_training_info (SportsWalking 9000 1 75 (180 / 100))) \<and>
   duration (projr (show_training_info (SportsWalking 9000 1 75 (180 / 100)))) = 1"
proof -
  have built:
    "read_package ''WLK'' [9000, 1, 75, 180] = Inr (SportsWalking 9000 1 75 (180 / 100))"
    by (simp add: read_package_def training_data_def L_def)
  from report_duration_roundtrip [OF built]
  obtain info where "show_training_info (SportsWalking 9000 1 75 (180 / 100)) = Inr info"
    and "duration info = 1"
    by auto
  with built show ?thesis by simp
qed

text \<open>
  C8. The inherited mean speed of a workout is \<open>get_distance / duration_hour\<close>
  whenever the duration is positive, and indeed whenever it is not zero; it raises
  \<open>ZeroDivisionError\<close> when the duration is zero, and in no other case. Running and
  walking workouts use this default.
\<close>

theorem Training_get_mean_speed_defined:
  "(0 < duration_hour self \<longrightarrow>
      Training_get_mean_speed self = Inr (get_distance self / duration_hour self)) \<and>
   (duration_hour self \<noteq> 0 \<longrightarrow>
      Training_get_mean_speed self = Inr (get_distance self / duration_hour self)) \<and>
   (isl (Training_get_mean_speed self) \<longleftrightarrow> duration_hour self = 0) \<and>
   (Training_get_mean_speed self = Inl ZeroDivisionError \<longleftrightarrow> duration_hour self = 0) \<and>
   get_mean_speed (Running a d w) = Training_get_mean_speed (Running a d w) \<and>
   get_mean_speed (SportsWalking a d w h) = Training_get_mean_speed (SportsWalking a d w h)"
  by (simp add: Training_get_mean_speed_def truediv_def)

theorem Training_get_mean_speed_defined_witness:
  "(0::real) < 1 \<and>
   get_mean_speed (Running 15000 1 75) = Inr (get_distance (Running 15000 1 75) / 1) \<and>
   get_mean_speed (Running 15000 0 75) = Inl ZeroDivisionError \<and>
   get_mean_speed (Running 15000 (- 2) 75) = Inr (get_distance (Running 15000 (- 2) 75) / (- 2))"
  using Training_get_mean_speed_defined [of "Running 15000 1 75" 15000 1 75]
    Training_get_mean_speed_defined [of "Running 15000 0 75" 15000 0 75]
    Training_get_mean_speed_defined [of "Running 15000 (- 2) 75" 15000 "- 2" 75]
  by simp

text \<open>The object transformers return the values of the methods and the object itself.\<close>

lemma get_distance_st_eq: "get_distance_st self = (get_distance self, self)"
  by (simp add: get_distance_st_def get_distance_def)

lemma get_mean_speed_st_eq: "get_mean_speed_st self = (get_mean_speed self, self)"
  by (cases self)
     (simp_all add: Training_get_mean_speed_st_def Training_get_mean_speed_def
        Swimming_get_mean_speed_st_def Swimming_get_mean_speed_def get_distance_st_eq)

lemma get_spent_calories_st_eq:
  "get_spent_calories_st self = (get_spent_calories self, self)"
proof (cases self)
  case (Running a d w)
  then show ?thesis
    by (simp add: Running_get_spent_calories_st_def Running_get_spent_calories_def
          get_mean_speed_st_eq split: sum.splits)
next
  case (SportsWalking a d w h)
  then show ?thesis
    by (simp add: SportsWalking_get_spent_calories_st_def
          SportsWalking_get_spent_calories_def get_mean_speed_st_eq Let_def
          split: sum.splits)
next
  case (Swimming a d w l c)
  then show ?thesis
    by (simp add: Swimming_get_spent_calories_st_def Swimming_get_spent_calories_def
          get_mean_speed_st_eq split: sum.splits)
qed

lemma show_training_info_st_eq:
  "show_training_info_st self = (show_training_info self, self)"
  by (simp add: show_training_info_st_def show_training_info_def get_distance_st_eq
        get_mean_speed_st_eq get_spent_calories_st_eq Let_def split: sum.splits)

text \<open>
  C9. No method changes the workout: each of \<open>get_distance\<close>, \<open>get_mean_speed\<close>,
  \<open>get_spent_calories\<close> and \<open>show_training_info\<close> returns the object it was called
  on, and its result is the function of the fields defined above. So a second call,
  made on the object the first call left, returns what the first call returned.
\<close>

theorem methods_leave_workout_unchanged:
  "get_distance_st self = (get_distance self, self) \<and>
   get_mean_speed_st self = (get_mean_speed self, self) \<and>
   get_spent_calories_st self = (get_spent_calories self, self) \<and>
   show_training_info_st self = (show_training_info self, self) \<and>
   fst (get_distance_st (snd (get_distance_st self))) = fst (get_distance_st self) \<and>
   fst (get_mean_speed_st (snd (get_mean_speed_st self))) = fst (get_mean_speed_st self) \<and>
   fst (get_spent_calories_st (snd (get_spent_calories_st self))) =
     fst (get_spent_calories_st self) \<and>
   fst (show_training_info_st (snd (show_training_info_st self))) =
     fst (show_training_info_st self)"
  by (simp add: get_distance_st_eq get_mean_speed_st_eq get_spent_calories_st_eq
        show_training_info_st_eq)

end
